theory Spec2Isabelle
  imports Main
begin

section \<open>Python values, exceptions and the libraries the handler calls\<close>

text \<open>
  The values that reach \<open>json.dumps\<close>. A Python \<open>dict\<close> keeps insertion order and is
  an association list here; \<open>PObj\<close> is any other Python object (a \<open>Decimal\<close>, a
  \<open>datetime\<close>, a \<open>UUID\<close>), named by its type, which \<open>json.dumps\<close> cannot encode.
  A Python \<open>str\<close> is the byte string of its UTF-8 encoding: comparing with an ASCII
  literal, splitting at an ASCII character and concatenating are then what they are on the
  \<open>str\<close>.
\<close>

datatype pyval =
    PStr string
  | PInt int
  | PBool bool
  | PList "pyval list"
  | PDict "(string \<times> pyval) list"
  | PObj string

text \<open>
  The handler tells \<open>ValueError\<close> (and its subclasses) from every other subclass of
  \<open>Exception\<close>. \<open>TypeError\<close>, \<open>IndexError\<close> and \<open>AttributeError\<close> are what
  \<open>json.dumps\<close>, \<open>data[0]\<close> and a missing attribute raise, \<open>OtherError\<close> is any other
  exception of a library; the argument is \<open>str(e)\<close>.
\<close>

datatype exn =
    ValueError string
  | TypeError string
  | IndexError string
  | AttributeError string
  | OtherError string

fun exn_str :: "exn \<Rightarrow> string" where
  "exn_str (ValueError m) = m"
| "exn_str (TypeError m) = m"
| "exn_str (IndexError m) = m"
| "exn_str (AttributeError m) = m"
| "exn_str (OtherError m) = m"

text \<open>\<open>xs[0]\<close>: raises \<open>IndexError\<close> on the empty list.\<close>

definition getitem0 :: "'a list \<Rightarrow> exn + 'a" where
  "getitem0 xs = (case xs of [] \<Rightarrow> Inl (IndexError ''list index out of range'') | x # _ \<Rightarrow> Inr x)"

subsection \<open>The standard library\<close>

text \<open>
  Two functions of Python are parameters, since what they do beyond ASCII (the decoding
  of escaped bytes, the digits and blanks of Unicode, the limit on digits) is no part of
  the repository: \<open>unquote s\<close> is \<open>urllib.parse.unquote(s)\<close> with its defaults, and
  \<open>py_int s\<close> is \<open>int(s)\<close> for a string \<open>s\<close>, which returns an integer or raises a
  \<open>ValueError\<close>, given here by its message.
\<close>

record stdlib =
  unquote :: "string \<Rightarrow> string"
  py_int :: "string \<Rightarrow> string + int"

subsection \<open>\<open>urllib.parse.parse_qs\<close>\<close>

definition plus_to_space :: "string \<Rightarrow> string" where
  "plus_to_space s = map (\<lambda>c. if c = CHR ''+'' then CHR '' '' else c) s"

text \<open>\<open>s.split(sep)\<close> for a one-character separator: never empty.\<close>

fun split_on :: "char \<Rightarrow> string \<Rightarrow> string list" where
  "split_on sep [] = [] # []"
| "split_on sep (c # cs) =
     (if c = sep then [] # split_on sep cs
      else (case split_on sep cs of w # ws \<Rightarrow> (c # w) # ws | [] \<Rightarrow> [c] # []))"

text \<open>
  One \<open>name_value\<close> field of the loop in \<open>parse_qsl\<close>, with the defaults
  \<open>separator='&'\<close>, \<open>keep_blank_values=False\<close> and \<open>strict_parsing=False\<close>: an empty
  field, a field without \<open>=\<close> and a field whose raw value is empty are skipped.
\<close>

definition parse_field :: "stdlib \<Rightarrow> string \<Rightarrow> (string \<times> string) list" where
  "parse_field py name_value =
     (if name_value = [] then []
      else let n = takeWhile (\<lambda>c. c \<noteq> CHR ''='') name_value;
               r = dropWhile (\<lambda>c. c \<noteq> CHR ''='') name_value
           in if r = [] then []
              else if tl r = [] then []
              else [(unquote py (plus_to_space n), unquote py (plus_to_space (tl r)))])"

definition parse_qsl :: "stdlib \<Rightarrow> string \<Rightarrow> (string \<times> string) list" where
  "parse_qsl py qs =
     (if qs = [] then [] else concat (map (parse_field py) (split_on (CHR ''&'') qs)))"

text \<open>
  The loop of \<open>parse_qs\<close>: \<open>parsed_result[name].append(value)\<close> when the name is there,
  \<open>parsed_result[name] = [value]\<close> otherwise.
\<close>

fun dict_append :: "(string \<times> string list) list \<Rightarrow> string \<Rightarrow> string \<Rightarrow> (string \<times> string list) list" where
  "dict_append [] n v = [(n, [v])]"
| "dict_append ((k, vs) # d) n v =
     (if k = n then (k, vs @ [v]) # d else (k, vs) # dict_append d n v)"

definition parse_qs :: "stdlib \<Rightarrow> string \<Rightarrow> (string \<times> string list) list" where
  "parse_qs py qs = foldl (\<lambda>d (n, v). dict_append d n v) [] (parse_qsl py qs)"

text \<open>\<open>d.get(key, default)\<close>\<close>

definition dict_get :: "('k \<times> 'v) list \<Rightarrow> 'k \<Rightarrow> 'v \<Rightarrow> 'v" where
  "dict_get d key dflt = (case map_of d key of None \<Rightarrow> dflt | Some v \<Rightarrow> v)"

subsection \<open>\<open>json.dumps\<close> and the connection\<close>

text \<open>
  \<open>json.dumps\<close> encodes strings, integers, booleans, lists and dictionaries with string
  keys, and raises \<open>TypeError\<close> on any other object. (Its message, which names the type
  of the object, is shortened here; it only reaches the log.)
\<close>

fun encodable :: "pyval \<Rightarrow> bool" where
  "encodable (PStr s) = True"
| "encodable (PInt i) = True"
| "encodable (PBool b) = True"
| "encodable (PList vs) = (\<forall>v \<in> set vs. encodable v)"
| "encodable (PDict kvs) = (\<forall>v \<in> snd ` set kvs. encodable v)"
| "encodable (PObj t) = False"

text \<open>
  What is written to the client: \<open>Json v\<close> is the text \<open>json.dumps(v, indent=2)\<close>
  encoded in UTF-8, \<open>Html s\<close> the page \<open>s\<close>.
\<close>

datatype body = Json pyval | Html string

definition json_dumps :: "pyval \<Rightarrow> exn + body" where
  "json_dumps v =
     (if encodable v then Inr (Json v)
      else Inl (TypeError ''Object is not JSON serializable''))"

text \<open>
  The calls \<open>send_response\<close>, \<open>send_header\<close>, \<open>end_headers\<close> and \<open>wfile.write\<close> of one
  handler, in order, and the lines it gives to \<open>logging.error\<close>.
\<close>

datatype event =
    Status nat
  | Header string string
  | EndHeaders
  | Write body

record conn =
  wfile :: "event list"
  errlog :: "string list"

definition emit :: "event list \<Rightarrow> conn \<Rightarrow> conn" where
  "emit evs c = c\<lparr>wfile := wfile c @ evs\<rparr>"

definition logging_error :: "string \<Rightarrow> conn \<Rightarrow> conn" where
  "logging_error line c = c\<lparr>errlog := errlog c @ [line]\<rparr>"

subsection \<open>The Faker library\<close>

text \<open>
  The \<open>faker\<close> package is not part of the repository: it is a parameter. \<open>'s\<close> is the
  state of one \<open>Faker\<close> object (its locale and its random source). \<open>Faker loc\<close> is the
  constructor. \<open>fake_attr m\<close> is the attribute access \<open>self.fake.m\<close>: \<open>None\<close> when it
  gives the bound method, the exception when it raises (a locale without that method).
  \<open>fake m\<close> is the call of the bound method \<open>m\<close> without arguments,
  \<open>fake_random_int lo hi\<close> the call of the bound \<open>random_int\<close> with \<open>min=lo, max=hi\<close>,
  \<open>isoformat x\<close> is \<open>x.isoformat()\<close> and \<open>to_str x\<close> is \<open>str(x)\<close>. Each of them may
  raise.
\<close>

record 's faker =
  Faker :: "string \<Rightarrow> exn + 's"
  fake_attr :: "string \<Rightarrow> 's \<Rightarrow> exn option"
  fake :: "string \<Rightarrow> 's \<Rightarrow> exn + (pyval \<times> 's)"
  fake_random_int :: "int \<Rightarrow> int \<Rightarrow> 's \<Rightarrow> exn + (pyval \<times> 's)"
  isoformat :: "pyval \<Rightarrow> exn + pyval"
  to_str :: "pyval \<Rightarrow> exn + pyval"

type_synonym ('a, 's) gen = "'s \<Rightarrow> exn + ('a \<times> 's)"

definition ret :: "'a \<Rightarrow> ('a, 's) gen" where
  "ret x s = Inr (x, s)"

definition bind :: "('a, 's) gen \<Rightarrow> ('a \<Rightarrow> ('b, 's) gen) \<Rightarrow> ('b, 's) gen" where
  "bind m f s = (case m s of Inl e \<Rightarrow> Inl e | Inr (x, s') \<Rightarrow> f x s')"

definition lift :: "exn + 'a \<Rightarrow> ('a, 's) gen" where
  "lift r s = (case r of Inl e \<Rightarrow> Inl e | Inr x \<Rightarrow> Inr (x, s))"

text \<open>The expression \<open>self.fake.m()\<close>: the attribute access, then the call.\<close>

definition attr_call :: "'s faker \<Rightarrow> string \<Rightarrow> (pyval, 's) gen" where
  "attr_call fk m s = (case fake_attr fk m s of Some e \<Rightarrow> Inl e | None \<Rightarrow> fake fk m s)"

text \<open>The expression \<open>self.fake.random_int(min=lo, max=hi)\<close>.\<close>

definition attr_random_int :: "'s faker \<Rightarrow> int \<Rightarrow> int \<Rightarrow> (pyval, 's) gen" where
  "attr_random_int fk lo hi s =
     (case fake_attr fk ''random_int'' s of
        Some e \<Rightarrow> Inl e
      | None \<Rightarrow> fake_random_int fk lo hi s)"

section \<open>fake\_data.py\<close>

definition FakeDataGenerator :: "'s faker \<Rightarrow> string \<Rightarrow> exn + 's" where
  "FakeDataGenerator fk locale = Faker fk locale"

definition generate_profile :: "'s faker \<Rightarrow> (pyval, 's) gen" where
  "generate_profile fk =
     bind (attr_call fk ''user_name'') (\<lambda>username.
     bind (attr_call fk ''name'') (\<lambda>name.
     bind (attr_call fk ''email'') (\<lambda>email.
     bind (attr_call fk ''phone_number'') (\<lambda>phone.
     bind (attr_call fk ''address'') (\<lambda>address.
     bind (attr_call fk ''job'') (\<lambda>job.
     bind (attr_call fk ''company'') (\<lambda>company.
     bind (bind (attr_call fk ''date_of_birth'') (\<lambda>d. lift (isoformat fk d))) (\<lambda>birthdate.
     bind (attr_call fk ''url'') (\<lambda>website.
     ret (PDict [(''username'', username), (''name'', name), (''email'', email),
                 (''phone'', phone), (''address'', address), (''job'', job),
                 (''company'', company), (''birthdate'', birthdate),
                 (''website'', website)]))))))))))"

definition generate_user :: "'s faker \<Rightarrow> (pyval, 's) gen" where
  "generate_user fk =
     bind (attr_random_int fk 1 100000) (\<lambda>ident.
     bind (attr_call fk ''user_name'') (\<lambda>username.
     bind (attr_call fk ''email'') (\<lambda>email.
     bind (attr_call fk ''name'') (\<lambda>name.
     bind (bind (attr_call fk ''date_time'') (\<lambda>d. lift (isoformat fk d))) (\<lambda>created_at.
     ret (PDict [(''id'', ident), (''username'', username), (''email'', email),
                 (''name'', name), (''created_at'', created_at)]))))))"

text \<open>
  The values of \<open>generator_map\<close> as they are written: \<open>Bound m\<close> is the bound method
  \<open>self.fake.m\<close>, looked up when the dictionary is built; \<open>Lambda m\<close> is
  \<open>lambda: self.fake.m()\<close>, \<open>LambdaIso m\<close> is \<open>lambda: self.fake.m().isoformat()\<close>,
  \<open>LambdaStr m\<close> is \<open>lambda: str(self.fake.m())\<close> and \<open>LambdaRandomInt lo hi\<close> is
  \<open>lambda: self.fake.random_int(min=lo, max=hi)\<close>, which look the method up when they
  are called; \<open>Profile\<close> and \<open>User\<close> are the two methods of the class itself.
\<close>

datatype producer =
    Bound string
  | Lambda string
  | LambdaIso string
  | LambdaStr string
  | LambdaRandomInt int int
  | Profile
  | User

fun invoke :: "'s faker \<Rightarrow> producer \<Rightarrow> (pyval, 's) gen" where
  "invoke fk (Bound m) = fake fk m"
| "invoke fk (Lambda m) = attr_call fk m"
| "invoke fk (LambdaIso m) = bind (attr_call fk m) (\<lambda>d. lift (isoformat fk d))"
| "invoke fk (LambdaStr m) = bind (attr_call fk m) (\<lambda>u. lift (to_str fk u))"
| "invoke fk (LambdaRandomInt lo hi) = attr_random_int fk lo hi"
| "invoke fk Profile = generate_profile fk"
| "invoke fk User = generate_user fk"

definition generator_map :: "(string \<times> producer) list" where
  "generator_map =
    [(''name'', Bound ''name''),
     (''first_name'', Bound ''first_name''),
     (''last_name'', Bound ''last_name''),
     (''email'', Bound ''email''),
     (''phone'', Bound ''phone_number''),
     (''ssn'', Bound ''ssn''),
     (''username'', Bound ''user_name''),
     (''password'', Bound ''password''),
     (''address'', Bound ''address''),
     (''street_address'', Bound ''street_address''),
     (''city'', Bound ''city''),
     (''state'', Bound ''state''),
     (''zipcode'', Bound ''zipcode''),
     (''country'', Bound ''country''),
     (''latitude'', Bound ''latitude''),
     (''longitude'', Bound ''longitude''),
     (''company'', Bound ''company''),
     (''job'', Bound ''job''),
     (''company_email'', Bound ''company_email''),
     (''url'', Bound ''url''),
     (''domain_name'', Bound ''domain_name''),
     (''ipv4'', Bound ''ipv4''),
     (''ipv6'', Bound ''ipv6''),
     (''mac_address'', Bound ''mac_address''),
     (''user_agent'', Bound ''user_agent''),
     (''text'', Bound ''text''),
     (''sentence'', Bound ''sentence''),
     (''paragraph'', Bound ''paragraph''),
     (''word'', Bound ''word''),
     (''date'', Lambda ''date''),
     (''time'', Lambda ''time''),
     (''datetime'', LambdaIso ''date_time''),
     (''year'', Bound ''year''),
     (''random_int'', LambdaRandomInt 0 1000),
     (''random_digit'', Bound ''random_digit''),
     (''credit_card_number'', Bound ''credit_card_number''),
     (''credit_card_provider'', Bound ''credit_card_provider''),
     (''credit_card_expire'', Bound ''credit_card_expire''),
     (''currency_code'', Bound ''currency_code''),
     (''currency_name'', Bound ''currency_name''),
     (''file_name'', Bound ''file_name''),
     (''file_extension'', Bound ''file_extension''),
     (''mime_type'', Bound ''mime_type''),
     (''color_name'', Bound ''color_name''),
     (''hex_color'', Bound ''hex_color''),
     (''rgb_color'', Bound ''rgb_color''),
     (''uuid4'', LambdaStr ''uuid4''),
     (''profile'', Profile),
     (''user'', User)]"

text \<open>
  Building the dictionary evaluates its values in order: every bound method is looked up
  on the \<open>Faker\<close> object, and the first access that raises ends \<open>generate\<close> before the
  type is looked at.
\<close>

fun bind_methods :: "'s faker \<Rightarrow> 's \<Rightarrow> (string \<times> producer) list \<Rightarrow> exn option" where
  "bind_methods fk s [] = None"
| "bind_methods fk s ((k, Bound m) # rest) =
     (case fake_attr fk m s of Some e \<Rightarrow> Some e | None \<Rightarrow> bind_methods fk s rest)"
| "bind_methods fk s ((k, p) # rest) = bind_methods fk s rest"

text \<open>\<open>[generator() for _ in range(count)]\<close>: the first call that raises ends it.\<close>

fun call_times :: "nat \<Rightarrow> ('a, 's) gen \<Rightarrow> ('a list, 's) gen" where
  "call_times 0 g s = Inr ([], s)"
| "call_times (Suc n) g s =
     (case g s of
        Inl e \<Rightarrow> Inl e
      | Inr (x, s1) \<Rightarrow>
          (case call_times n g s1 of
             Inl e \<Rightarrow> Inl e
           | Inr (xs, s2) \<Rightarrow> Inr (x # xs, s2)))"

definition generate :: "'s faker \<Rightarrow> string \<Rightarrow> int \<Rightarrow> (pyval list, 's) gen" where
  "generate fk data_type count s =
     (case bind_methods fk s generator_map of
        Some e \<Rightarrow> Inl e
      | None \<Rightarrow>
          (case map_of generator_map data_type of
             None \<Rightarrow> Inl (ValueError (''Unknown data type: '' @ data_type))
           | Some generator \<Rightarrow> call_times (nat count) (invoke fk generator) s))"

definition get_available_types :: "string list" where
  "get_available_types =
    [''name'', ''first_name'', ''last_name'', ''email'', ''phone'', ''ssn'',
     ''username'', ''password'', ''address'', ''street_address'', ''city'',
     ''state'', ''zipcode'', ''country'', ''latitude'', ''longitude'',
     ''company'', ''job'', ''company_email'', ''url'', ''domain_name'',
     ''ipv4'', ''ipv6'', ''mac_address'', ''user_agent'', ''text'',
     ''sentence'', ''paragraph'', ''word'', ''date'', ''time'', ''datetime'',
     ''year'', ''random_int'', ''random_digit'', ''credit_card_number'',
     ''credit_card_provider'', ''credit_card_expire'', ''currency_code'',
     ''currency_name'', ''file_name'', ''file_extension'', ''mime_type'',
     ''color_name'', ''hex_color'', ''rgb_color'', ''uuid4'', ''profile'', ''user'']"

section \<open>api\_handler.py\<close>

text \<open>
  A handler takes the connection and returns it with what it wrote, and \<open>Inl e\<close> when
  the exception \<open>e\<close> leaves it. What was written before an exception stays written.
\<close>

type_synonym handler = "conn \<Rightarrow> (exn + unit) \<times> conn"

definition send_json_response :: "nat \<Rightarrow> pyval \<Rightarrow> handler" where
  "send_json_response status_code data c =
     (let c1 = emit [Status status_code,
                     Header ''Content-Type'' ''application/json'',
                     Header ''Access-Control-Allow-Origin'' ''*'',
                     EndHeaders] c
      in case json_dumps data of
           Inl e \<Rightarrow> (Inl e, c1)
         | Inr b \<Rightarrow> (Inr (), emit [Write b] c1))"


definition send_error_response :: "nat \<Rightarrow> string \<Rightarrow> handler" where
  "send_error_response status_code message =
     send_json_response status_code
       (PDict [(''success'', PBool False), (''error'', PStr message)])"

text \<open>The request is what \<open>urlparse\<close> makes of \<open>self.path\<close>: its path and its query.\<close>

record request =
  path :: string
  query :: string

text \<open>\<open>params.get(key, [default])[0]\<close>\<close>

definition first_param :: "(string \<times> string list) list \<Rightarrow> string \<Rightarrow> string \<Rightarrow> exn + string" where
  "first_param params key dflt = getitem0 (dict_get params key [dflt])"

text \<open>
  The \<open>try\<close> of \<open>handle_generate\<close> from the check of the count to its end (lines 51 to
  67), for the three values read from the query.
\<close>

definition answer :: "'s faker \<Rightarrow> string \<Rightarrow> int \<Rightarrow> string \<Rightarrow> handler" where
  "answer fk data_type count locale c =
     (if count < 1 \<or> count > 100
        then send_error_response 400 ''Count must be between 1 and 100'' c
      else
      (case FakeDataGenerator fk locale of
        Inl e \<Rightarrow> (Inl e, c)
      | Inr generator \<Rightarrow>
      (case generate fk data_type count generator of
        Inl e \<Rightarrow> (Inl e, c)
      | Inr (data, generator') \<Rightarrow>
      (case (if count > 1 then Inr (PList data) else getitem0 data) of
        Inl e \<Rightarrow> (Inl e, c)
      | Inr d \<Rightarrow>
          send_json_response 200
            (PDict [(''success'', PBool True), (''type'', PStr data_type),
                    (''count'', PInt count), (''data'', d)]) c))))"

text \<open>
  The body of the \<open>try\<close> in \<open>handle_generate\<close>: the three parameters are read (lines 44
  to 49), then comes the rest. An exception leaves it at the line that raises.
  \<open>handle_generate\<close> is the \<open>try\<close> with its two \<open>except\<close> clauses.
\<close>

definition try_generate :: "stdlib \<Rightarrow> 's faker \<Rightarrow> request \<Rightarrow> handler" where
  "try_generate py fk req c =
     (let params = parse_qs py (query req) in
      case first_param params ''type'' ''name'' of
        Inl e \<Rightarrow> (Inl e, c)
      | Inr data_type \<Rightarrow>
      (case first_param params ''count'' ''1'' of
        Inl e \<Rightarrow> (Inl e, c)
      | Inr count_str \<Rightarrow>
      (case py_int py count_str of
        Inl m \<Rightarrow> (Inl (ValueError m), c)
      | Inr count \<Rightarrow>
      (case first_param params ''locale'' ''en_US'' of
        Inl e \<Rightarrow> (Inl e, c)
      | Inr locale \<Rightarrow> answer fk data_type count locale c))))"

definition handle_generate :: "stdlib \<Rightarrow> 's faker \<Rightarrow> request \<Rightarrow> handler" where
  "handle_generate py fk req c =
     (case try_generate py fk req c of
        (Inr u, c1) \<Rightarrow> (Inr u, c1)
      | (Inl (ValueError m), c1) \<Rightarrow> send_error_response 400 m c1
      | (Inl e, c1) \<Rightarrow>
          send_error_response 500 ''Internal server error''
            (logging_error (''Error generating fake data: '' @ exn_str e) c1))"

definition handle_types :: handler where
  "handle_types =
     (let types = get_available_types in
      send_json_response 200
        (PDict [(''success'', PBool True), (''count'', PInt (int (length types))),
                (''types'', PList (map PStr types))]))"





section \<open>What the claims speak of\<close>

text \<open>
  The value a parameter is read as, in the words of the interface: the value of the first
  field \<open>key=value\<close> of the query with that name and a non-empty value, the default when
  there is none.
\<close>

definition param_value :: "stdlib \<Rightarrow> string \<Rightarrow> string \<Rightarrow> string \<Rightarrow> string" where
  "param_value py qs key dflt =
     (case map snd (filter (\<lambda>(n, v). n = key) (parse_qsl py qs)) of
        [] \<Rightarrow> dflt
      | v # _ \<Rightarrow> v)"

definition type_arg :: "stdlib \<Rightarrow> request \<Rightarrow> string" where
  "type_arg py req = param_value py (query req) ''type'' ''name''"

definition count_arg :: "stdlib \<Rightarrow> request \<Rightarrow> string" where
  "count_arg py req = param_value py (query req) ''count'' ''1''"

definition locale_arg :: "stdlib \<Rightarrow> request \<Rightarrow> string" where
  "locale_arg py req = param_value py (query req) ''locale'' ''en_US''"

text \<open>One complete JSON response on the wire, and the two envelopes.\<close>

definition json_headers :: "nat \<Rightarrow> event list" where
  "json_headers code =
     [Status code, Header ''Content-Type'' ''application/json'',
      Header ''Access-Control-Allow-Origin'' ''*'', EndHeaders]"

definition json_reply :: "nat \<Rightarrow> pyval \<Rightarrow> event list" where
  "json_reply code v = json_headers code @ [Write (Json v)]"

definition error_envelope :: "string \<Rightarrow> pyval" where
  "error_envelope message = PDict [(''success'', PBool False), (''error'', PStr message)]"

definition success_envelope :: "string \<Rightarrow> int \<Rightarrow> pyval \<Rightarrow> pyval" where
  "success_envelope data_type count d =
     PDict [(''success'', PBool True), (''type'', PStr data_type),
            (''count'', PInt count), (''data'', d)]"

text \<open>What the two \<open>except\<close> clauses of \<open>handle_generate\<close> answer to an exception.\<close>

definition failure_reply :: "exn \<Rightarrow> conn \<Rightarrow> conn" where
  "failure_reply e c =
     (case e of
        ValueError m \<Rightarrow> emit (json_reply 400 (error_envelope m)) c
      | _ \<Rightarrow> emit (json_reply 500 (error_envelope ''Internal server error''))
               (logging_error (''Error generating fake data: '' @ exn_str e) c))"

text \<open>The state of the generator after \<open>i\<close> calls of a producer that all returned.\<close>

fun state_after :: "nat \<Rightarrow> ('a, 's) gen \<Rightarrow> 's \<Rightarrow> 's option" where
  "state_after 0 g s = Some s"
| "state_after (Suc i) g s =
     (case g s of Inl e \<Rightarrow> None | Inr (x, s1) \<Rightarrow> state_after i g s1)"

text \<open>The field names of a record, in order.\<close>

fun keys_of :: "pyval \<Rightarrow> string list option" where
  "keys_of (PDict kvs) = Some (map fst kvs)"
| "keys_of v = None"

fun field :: "string \<Rightarrow> pyval \<Rightarrow> pyval option" where
  "field k (PDict kvs) = map_of kvs k"
| "field k v = None"

text \<open>The composite entries of the catalog are the two methods that build a record.\<close>

fun is_composite :: "producer \<Rightarrow> bool" where
  "is_composite Profile = True"
| "is_composite User = True"
| "is_composite p = False"

text \<open>The contract of \<open>random_int\<close>: an integer between \<open>min\<close> and \<open>max\<close>.\<close>

definition random_int_in_range :: "'s faker \<Rightarrow> bool" where
  "random_int_in_range fk =
     (\<forall>lo hi s v s'. fake_random_int fk lo hi s = Inr (v, s') \<longrightarrow>
        (\<exists>n. v = PInt n \<and> lo \<le> n \<and> n \<le> hi))"

text \<open>The \<open>data\<close> field of a success envelope.\<close>

text \<open>The \<open>data\<close> field of a success envelope, for a list of \<open>count\<close> items.\<close>

definition payload :: "int \<Rightarrow> pyval list \<Rightarrow> pyval" where
  "payload count data = (if count = 1 then data ! 0 else PList data)"

text \<open>
  A standard library for the concrete instances: \<open>unquote\<close> leaves a string alone and
  \<open>int\<close> reads a non-empty string of ASCII digits as the number it writes and rejects
  every other string. On the strings of the instances below (no percent sign; the
  counts \<open>1\<close>, \<open>3\<close>, \<open>5\<close>, \<open>200\<close> and \<open>abc\<close>) that is what Python does.
\<close>

definition is_digit :: "char \<Rightarrow> bool" where
  "is_digit c = (48 \<le> (of_char c :: nat) \<and> (of_char c :: nat) \<le> 57)"

definition digits_value :: "string \<Rightarrow> nat" where
  "digits_value ds = foldl (\<lambda>a c. 10 * a + ((of_char c :: nat) - 48)) 0 ds"

definition sample_python :: stdlib where
  "sample_python =
     \<lparr>unquote = (\<lambda>s. s),
      py_int = (\<lambda>s.
         if s \<noteq> [] \<and> list_all is_digit s then Inr (int (digits_value s))
         else Inl (''invalid literal for int() with base 10: '' @ [CHR 0x27] @ s @ [CHR 0x27]))\<rparr>"

text \<open>The decimal digits of a number.\<close>

definition digit_char :: "nat \<Rightarrow> char" where
  "digit_char n = ''0123456789'' ! n"

fun dec_string :: "nat \<Rightarrow> string" where
  "dec_string n =
     (if n < 10 then [digit_char n] else dec_string (n div 10) @ [digit_char (n mod 10)])"

declare dec_string.simps [simp del]

text \<open>
  A backend for the concrete instances. The state of its object is the locale and the
  number of calls made. It knows the locales \<open>en_US\<close> and \<open>en_GB\<close>, and for \<open>en_GB\<close>
  it has no method \<open>state\<close>; its coordinates are \<open>Decimal\<close> objects and its dates
  \<open>datetime\<close> objects.
\<close>

definition sample_faker :: "(string \<times> nat) faker" where
  "sample_faker =
     \<lparr>Faker = (\<lambda>locale. if locale = ''en_US'' \<or> locale = ''en_GB'' then Inr (locale, 0)
                else Inl (AttributeError (''Invalid configuration for faker locale '' @ locale))),
      fake_attr = (\<lambda>m s.
         if fst s = ''en_GB'' \<and> m = ''state''
         then Some (AttributeError ''Generator object has no attribute state'')
         else None),
      fake = (\<lambda>m s.
         if m = ''latitude'' \<or> m = ''longitude'' then Inr (PObj ''Decimal'', (fst s, Suc (snd s)))
         else if m = ''date_time'' \<or> m = ''date_of_birth''
           then Inr (PObj ''datetime'', (fst s, Suc (snd s)))
         else Inr (PStr (m @ ''-'' @ dec_string (snd s)), (fst s, Suc (snd s)))),
      fake_random_int = (\<lambda>lo hi s.
         if lo \<le> hi then Inr (PInt (lo + int (snd s) mod (hi - lo + 1)), (fst s, Suc (snd s)))
         else Inl (ValueError ''empty range for randrange()'')),
      isoformat = (\<lambda>v. case v of PObj t \<Rightarrow> Inr (PStr ''2020-01-01T00:00:00'')
                          | _ \<Rightarrow> Inl (AttributeError ''object has no attribute isoformat'')),
      to_str = (\<lambda>v. case v of PStr x \<Rightarrow> Inr (PStr x) | _ \<Rightarrow> Inr (PStr ''object''))\<rparr>"

text \<open>A connection on which nothing has been written yet.\<close>

definition conn0 :: conn where
  "conn0 = \<lparr>wfile = [], errlog = []\<rparr>"

text \<open>The request that \<open>urlparse\<close> makes of a path and a query.\<close>

definition get_request :: "string \<Rightarrow> string \<Rightarrow> request" where
  "get_request p q = \<lparr>path = p, query = q\<rparr>"

text \<open>The sample backend, with every call of a method after the second raising \<open>e\<close>.\<close>

definition failing_faker :: "exn \<Rightarrow> (string \<times> nat) faker" where
  "failing_faker e =
     sample_faker\<lparr>fake := (\<lambda>m s. if snd s < 2 then fake sample_faker m s else Inl e)\<rparr>"

section \<open>Lemmas\<close>

subsection \<open>Writing to the connection\<close>

lemma emit_emit: "emit ys (emit xs c) = emit (xs @ ys) c"
  by (simp add: emit_def)

lemma emit_Nil: "emit [] c = c"
  by (simp add: emit_def)

lemma emit_inject: "(emit xs c = emit ys c) = (xs = ys)"
proof
  assume "emit xs c = emit ys c"
  then have "wfile (emit xs c) = wfile (emit ys c)" by simp
  then show "xs = ys" by (simp add: emit_def)
qed simp

lemma send_json_response_encodable:
  "encodable v \<Longrightarrow> send_json_response code v c = (Inr (), emit (json_reply code v) c)"
  by (simp add: send_json_response_def json_dumps_def json_reply_def json_headers_def emit_emit)

lemma send_json_response_not_encodable:
  "\<not> encodable v \<Longrightarrow> send_json_response code v c =
     (Inl (TypeError ''Object is not JSON serializable''), emit (json_headers code) c)"
  by (simp add: send_json_response_def json_dumps_def json_headers_def)

lemma send_error_response_eq:
  "send_error_response code m c = (Inr (), emit (json_reply code (error_envelope m)) c)"
  by (simp add: send_error_response_def error_envelope_def send_json_response_encodable)

lemma failure_reply_ValueError:
  "failure_reply (ValueError m) c = emit (json_reply 400 (error_envelope m)) c"
  by (simp add: failure_reply_def)

lemma failure_reply_not_200:
  "failure_reply e c \<noteq> emit (json_reply 200 body) c"
proof
  assume "failure_reply e c = emit (json_reply 200 body) c"
  then have "wfile (failure_reply e c) = wfile (emit (json_reply 200 body) c)" by simp
  then show False
    by (cases e)
       (simp_all add: failure_reply_def emit_def logging_error_def json_reply_def json_headers_def)
qed

lemma double_reply_not_200:
  "failure_reply e (emit (json_headers 200) c) \<noteq> emit (json_reply 200 body) c"
proof
  assume "failure_reply e (emit (json_headers 200) c) = emit (json_reply 200 body) c"
  then have "wfile (failure_reply e (emit (json_headers 200) c))
               = wfile (emit (json_reply 200 body) c)" by simp
  then show False
    by (cases e)
       (simp_all add: failure_reply_def emit_def logging_error_def json_reply_def json_headers_def)
qed


subsection \<open>Reading the query\<close>

lemma map_of_dict_append:
  "map_of (dict_append d n v) k =
     (if k = n then Some (case map_of d n of None \<Rightarrow> [v] | Some vs \<Rightarrow> vs @ [v]) else map_of d k)"
  by (induction d n v rule: dict_append.induct) auto

lemma map_of_foldl_dict_append:
  "map_of (foldl (\<lambda>d (n, v). dict_append d n v) d ps) k =
     (case map snd (filter (\<lambda>(n, v). n = k) ps) of
        [] \<Rightarrow> map_of d k
      | v # vs \<Rightarrow> Some ((case map_of d k of None \<Rightarrow> [] | Some us \<Rightarrow> us) @ v # vs))"
proof (induction ps arbitrary: d)
  case Nil
  then show ?case by simp
next
  case (Cons p ps)
  obtain n v where p: "p = (n, v)" by (cases p)
  show ?case
    by (simp add: p Cons.IH map_of_dict_append split: list.splits option.splits)
qed

lemma first_param_value:
  "first_param (parse_qs py qs) key dflt = Inr (param_value py qs key dflt)"
  by (simp add: first_param_def parse_qs_def dict_get_def getitem0_def param_value_def
      map_of_foldl_dict_append split: list.splits)

lemma split_on_append:
  "sep \<notin> set f \<Longrightarrow> split_on sep (f @ sep # qs) = f # split_on sep qs"
  by (induction f) auto

lemma split_on_single: "sep \<notin> set f \<Longrightarrow> split_on sep f = [f]"
  by (induction f) auto

lemma parse_field_empty: "parse_field py [] = []"
  by (simp add: parse_field_def)

lemma parse_qsl_cons:
  "CHR ''&'' \<notin> set f \<Longrightarrow> parse_qsl py (f @ CHR ''&'' # qs) = parse_field py f @ parse_qsl py qs"
  by (simp add: parse_qsl_def split_on_append parse_field_empty)

lemma parse_qsl_single: "CHR ''&'' \<notin> set f \<Longrightarrow> parse_qsl py f = parse_field py f"
  by (simp add: parse_qsl_def split_on_single parse_field_empty)

lemma parse_field_cases: "parse_field py f = [] \<or> (\<exists>n v. parse_field py f = [(n, v)])"
  by (simp add: parse_field_def Let_def)

lemma param_value_cons:
  assumes "CHR ''&'' \<notin> set f"
  shows "param_value py (f @ CHR ''&'' # qs) key dflt =
     (case parse_field py f of
        [] \<Rightarrow> param_value py qs key dflt
      | (n, v) # _ \<Rightarrow> if n = key then v else param_value py qs key dflt)"
  using parse_field_cases [of py f]
  by (auto simp: param_value_def parse_qsl_cons [OF assms])

lemma param_value_single:
  assumes "CHR ''&'' \<notin> set f"
  shows "param_value py f key dflt =
     (case parse_field py f of [] \<Rightarrow> dflt | (n, v) # _ \<Rightarrow> if n = key then v else dflt)"
  using parse_field_cases [of py f]
  by (auto simp: param_value_def parse_qsl_single [OF assms])

lemma parse_field_no_equals: "CHR ''='' \<notin> set f \<Longrightarrow> parse_field py f = []"
proof -
  assume a: "CHR ''='' \<notin> set f"
  then have "dropWhile (\<lambda>c. c \<noteq> CHR ''='') f = []" by (auto simp: dropWhile_eq_Nil_conv)
  then show ?thesis by (simp add: parse_field_def Let_def)
qed

lemma parse_field_pair:
  assumes "CHR ''='' \<notin> set n"
  shows "parse_field py (n @ CHR ''='' # v) =
     (if v = [] then [] else [(unquote py (plus_to_space n), unquote py (plus_to_space v))])"
proof -
  have t: "takeWhile (\<lambda>c. c \<noteq> CHR ''='') (n @ CHR ''='' # v) = n"
    using assms by (induction n) auto
  have d: "dropWhile (\<lambda>c. c \<noteq> CHR ''='') (n @ CHR ''='' # v) = CHR ''='' # v"
    using assms by (induction n) auto
  show ?thesis by (simp add: parse_field_def Let_def t d del: append.simps)
qed

subsection \<open>The comprehension\<close>

lemma call_times_length:
  "call_times n g s = Inr (xs, s') \<Longrightarrow> length xs = n"
  by (induction n arbitrary: s xs) (auto split: sum.splits prod.splits)

lemma call_times_all:
  assumes "\<And>s v s'. g s = Inr (v, s') \<Longrightarrow> P v"
  shows "call_times n g s = Inr (xs, s') \<Longrightarrow> \<forall>x \<in> set xs. P x"
  using assms by (induction n arbitrary: s xs) (auto split: sum.splits prod.splits)

lemma call_times_order:
  "call_times n g s = Inr (xs, s') \<Longrightarrow> i < n \<Longrightarrow>
     \<exists>si sj. state_after i g s = Some si \<and> g si = Inr (xs ! i, sj)"
proof (induction n arbitrary: s xs i)
  case 0
  then show ?case by simp
next
  case (Suc n)
  from Suc.prems(1) obtain x s1 ys where
    g: "g s = Inr (x, s1)" and rest: "call_times n g s1 = Inr (ys, s')" and xs: "xs = x # ys"
    by (auto split: sum.splits prod.splits)
  show ?case
  proof (cases i)
    case 0
    then show ?thesis using g xs by simp
  next
    case (Suc j)
    with Suc.prems(2) have "j < n" by simp
    from Suc.IH [OF rest this] show ?thesis using g xs Suc by simp
  qed
qed

lemma call_times_final:
  "call_times n g s = Inr (xs, s') \<Longrightarrow> state_after n g s = Some s'"
  by (induction n arbitrary: s xs) (auto split: sum.splits prod.splits)

lemma call_times_built:
  "length xs = n \<Longrightarrow> state_after n g s = Some s' \<Longrightarrow>
   (\<forall>i < n. \<exists>si sj. state_after i g s = Some si \<and> g si = Inr (xs ! i, sj)) \<Longrightarrow>
   call_times n g s = Inr (xs, s')"
proof (induction n arbitrary: s xs)
  case 0
  then show ?case by simp
next
  case (Suc n)
  from Suc.prems(1) obtain x ys where xs: "xs = x # ys" and len: "length ys = n"
    by (cases xs) auto
  from Suc.prems(3) have "\<exists>si sj. state_after 0 g s = Some si \<and> g si = Inr (xs ! 0, sj)"
    by blast
  then obtain s1 where g: "g s = Inr (x, s1)" using xs by auto
  from Suc.prems(2) g have fin: "state_after n g s1 = Some s'" by simp
  have "\<forall>i < n. \<exists>si sj. state_after i g s1 = Some si \<and> g si = Inr (ys ! i, sj)"
  proof (intro allI impI)
    fix i assume "i < n"
    then have "Suc i < Suc n" by simp
    with Suc.prems(3)
    have "\<exists>si sj. state_after (Suc i) g s = Some si \<and> g si = Inr (xs ! Suc i, sj)"
      by blast
    then show "\<exists>si sj. state_after i g s1 = Some si \<and> g si = Inr (ys ! i, sj)"
      using g xs by simp
  qed
  from Suc.IH [OF len fin this] show ?case using g xs by simp
qed

lemma call_times_returns_iff:
  "call_times n g s = Inr (xs, s') \<longleftrightarrow>
     length xs = n \<and> state_after n g s = Some s'
     \<and> (\<forall>i < n. \<exists>si sj. state_after i g s = Some si \<and> g si = Inr (xs ! i, sj))"
  using call_times_length [of n g s xs s'] call_times_final [of n g s xs s']
    call_times_order [of n g s xs s'] call_times_built [of xs n g s s']
  by blast

lemma call_times_raises_iff:
  "call_times n g s = Inl e \<longleftrightarrow>
     (\<exists>i < n. \<exists>si. state_after i g s = Some si \<and> g si = Inl e)"
proof (induction n arbitrary: s)
  case 0
  then show ?case by simp
next
  case (Suc n)
  show ?case
  proof (cases "g s")
    case (Inl e')
    have "(\<exists>i < Suc n. \<exists>si. state_after i g s = Some si \<and> g si = Inl e) \<longleftrightarrow> e' = e"
    proof
      assume "\<exists>i < Suc n. \<exists>si. state_after i g s = Some si \<and> g si = Inl e"
      then obtain i si where i: "state_after i g s = Some si" "g si = Inl e" by blast
      show "e' = e"
      proof (cases i)
        case 0
        with i Inl show ?thesis by simp
      next
        case (Suc j)
        with i Inl show ?thesis by simp
      qed
    next
      assume "e' = e"
      with Inl have "state_after 0 g s = Some s \<and> g s = Inl e" by simp
      then show "\<exists>i < Suc n. \<exists>si. state_after i g s = Some si \<and> g si = Inl e" by blast
    qed
    with Inl show ?thesis by auto
  next
    case (Inr r)
    obtain x s1 where r: "r = (x, s1)" by (cases r)
    have "(\<exists>i < Suc n. \<exists>si. state_after i g s = Some si \<and> g si = Inl e)
            \<longleftrightarrow> (\<exists>i < n. \<exists>si. state_after i g s1 = Some si \<and> g si = Inl e)"
    proof
      assume "\<exists>i < Suc n. \<exists>si. state_after i g s = Some si \<and> g si = Inl e"
      then obtain i si where i: "i < Suc n" "state_after i g s = Some si" "g si = Inl e"
        by blast
      show "\<exists>i < n. \<exists>si. state_after i g s1 = Some si \<and> g si = Inl e"
      proof (cases i)
        case 0
        with i Inr show ?thesis by simp
      next
        case (Suc j)
        with i Inr r have "j < n" "state_after j g s1 = Some si" by simp_all
        with i(3) show ?thesis by blast
      qed
    next
      assume "\<exists>i < n. \<exists>si. state_after i g s1 = Some si \<and> g si = Inl e"
      then obtain j si where j: "j < n" "state_after j g s1 = Some si" "g si = Inl e"
        by blast
      then have "Suc j < Suc n" "state_after (Suc j) g s = Some si"
        using Inr r by simp_all
      with j(3) show "\<exists>i < Suc n. \<exists>si. state_after i g s = Some si \<and> g si = Inl e"
        by blast
    qed
    moreover have "call_times (Suc n) g s = Inl e \<longleftrightarrow> call_times n g s1 = Inl e"
      using Inr r by (auto split: sum.splits prod.splits)
    ultimately show ?thesis using Suc.IH [of s1] by simp
  qed
qed

subsection \<open>The catalog and \<open>generate\<close>\<close>

lemma keys_generator_map: "map fst generator_map = get_available_types"
  by (simp add: generator_map_def get_available_types_def)

lemma distinct_types: "distinct get_available_types"
  by (simp add: get_available_types_def)

lemma card_keys: "card (dom (map_of generator_map)) = 49"
proof -
  have d: "distinct (map fst generator_map)"
    by (simp add: keys_generator_map distinct_types)
  have "card (dom (map_of generator_map)) = card (set (map fst generator_map))"
    by (simp add: dom_map_of_conv_image_fst)
  also have "\<dots> = length (map fst generator_map)"
    using d by (rule distinct_card)
  also have "\<dots> = 49"
    by (simp add: generator_map_def)
  finally show ?thesis .
qed

lemma lookup_None_iff: "(map_of generator_map t = None) = (t \<notin> set get_available_types)"
  by (simp add: map_of_eq_None_iff keys_generator_map [symmetric])

lemma lookup_profile: "map_of generator_map ''profile'' = Some Profile"
  by (simp add: generator_map_def)

lemma lookup_user: "map_of generator_map ''user'' = Some User"
  by (simp add: generator_map_def)

lemma lookup_name: "map_of generator_map ''name'' = Some (Bound ''name'')"
  by (simp add: generator_map_def)

lemma lookup_email: "map_of generator_map ''email'' = Some (Bound ''email'')"
  by (simp add: generator_map_def)

lemma bind_methods_None:
  "(\<And>m. fake_attr fk m s = None) \<Longrightarrow> bind_methods fk s xs = None"
  by (induction fk s xs rule: bind_methods.induct) simp_all

lemma generate_built:
  "bind_methods fk s generator_map = None \<Longrightarrow> map_of generator_map t = Some p \<Longrightarrow>
     generate fk t n s = call_times (nat n) (invoke fk p) s"
  by (simp add: generate_def)

lemma generate_unbuilt:
  "bind_methods fk s generator_map = Some e \<Longrightarrow> generate fk t n s = Inl e"
  by (simp add: generate_def)

lemma generate_unknown:
  "bind_methods fk s generator_map = None \<Longrightarrow> t \<notin> set get_available_types \<Longrightarrow>
     generate fk t n s = Inl (ValueError (''Unknown data type: '' @ t))"
  using lookup_None_iff [of t] by (simp add: generate_def)

lemma generate_returns:
  "generate fk t n s = Inr (data, s') \<Longrightarrow>
     bind_methods fk s generator_map = None
     \<and> (\<exists>p. map_of generator_map t = Some p
           \<and> call_times (nat n) (invoke fk p) s = Inr (data, s'))"
  by (auto simp: generate_def split: option.splits)

lemma generate_length:
  "generate fk t n s = Inr (data, s') \<Longrightarrow> length data = nat n"
  by (auto dest!: generate_returns dest: call_times_length)

lemma bind_returns:
  "bind m f s = Inr r \<Longrightarrow> \<exists>x s1. m s = Inr (x, s1) \<and> f x s1 = Inr r"
  by (auto simp: bind_def split: sum.splits prod.splits)

lemma generate_profile_keys:
  "generate_profile fk s = Inr (v, s') \<Longrightarrow>
     keys_of v = Some [''username'', ''name'', ''email'', ''phone'', ''address'', ''job'',
                       ''company'', ''birthdate'', ''website'']"
  unfolding generate_profile_def
  by (auto dest!: bind_returns simp: ret_def)

lemma generate_user_keys:
  "generate_user fk s = Inr (v, s') \<Longrightarrow>
     keys_of v = Some [''id'', ''username'', ''email'', ''name'', ''created_at'']"
  unfolding generate_user_def
  by (auto dest!: bind_returns simp: ret_def)

lemma attr_random_int_returns:
  "attr_random_int fk lo hi s = Inr r \<Longrightarrow> fake_random_int fk lo hi s = Inr r"
  by (auto simp: attr_random_int_def split: option.splits)

lemma generate_user_id:
  "random_int_in_range fk \<Longrightarrow> generate_user fk s = Inr (v, s') \<Longrightarrow>
     \<exists>i. field ''id'' v = Some (PInt i) \<and> 1 \<le> i \<and> i \<le> 100000"
  unfolding generate_user_def random_int_in_range_def
  by (fastforce dest!: bind_returns dest: attr_random_int_returns simp: ret_def)

subsection \<open>The handler of \<open>/api/generate\<close>\<close>

lemma handle_generate_alt:
  "handle_generate py fk req c =
     (case try_generate py fk req c of
        (Inr u, c1) \<Rightarrow> (Inr u, c1)
      | (Inl e, c1) \<Rightarrow> (Inr (), failure_reply e c1))"
  by (auto simp: handle_generate_def failure_reply_def send_error_response_eq
      split: sum.splits prod.splits exn.splits)

lemma try_generate_args:
  "try_generate py fk req c =
     (case py_int py (count_arg py req) of
        Inl m \<Rightarrow> (Inl (ValueError m), c)
      | Inr n \<Rightarrow> answer fk (type_arg py req) n (locale_arg py req) c)"
  by (simp add: try_generate_def first_param_value count_arg_def type_arg_def locale_arg_def
      split: sum.splits)

lemma handle_generate_unparsed:
  "py_int py (count_arg py req) = Inl m \<Longrightarrow>
     handle_generate py fk req c = (Inr (), emit (json_reply 400 (error_envelope m)) c)"
  by (simp add: handle_generate_alt try_generate_args failure_reply_ValueError)

lemma handle_generate_out_of_range:
  "py_int py (count_arg py req) = Inr n \<Longrightarrow> n < 1 \<or> 100 < n \<Longrightarrow>
     handle_generate py fk req c =
       (Inr (), emit (json_reply 400 (error_envelope ''Count must be between 1 and 100'')) c)"
  by (auto simp: handle_generate_alt try_generate_args answer_def send_error_response_eq)

lemma getitem0_one: "length xs = 1 \<Longrightarrow> getitem0 xs = Inr (xs ! 0)"
  by (cases xs) (simp_all add: getitem0_def)

lemma encodable_payload:
  "length data = nat n \<Longrightarrow> 1 \<le> n \<Longrightarrow> encodable (payload n data) = (\<forall>v \<in> set data. encodable v)"
  by (cases data) (auto simp: payload_def)

lemma handle_generate_in_range:
  assumes "py_int py (count_arg py req) = Inr n" "1 \<le> n" "n \<le> 100"
  shows "handle_generate py fk req c =
     (Inr (),
      case FakeDataGenerator fk (locale_arg py req) of
        Inl e \<Rightarrow> failure_reply e c
      | Inr g \<Rightarrow>
          (case generate fk (type_arg py req) n g of
             Inl e \<Rightarrow> failure_reply e c
           | Inr (data, g') \<Rightarrow>
               if \<forall>v \<in> set data. encodable v
               then emit (json_reply 200 (success_envelope (type_arg py req) n (payload n data))) c
               else failure_reply (TypeError ''Object is not JSON serializable'')
                      (emit (json_headers 200) c)))"
proof (cases "FakeDataGenerator fk (locale_arg py req)")
  case (Inl e)
  then show ?thesis using assms
    by (simp add: handle_generate_alt try_generate_args answer_def)
next
  case g: (Inr g)
  show ?thesis
  proof (cases "generate fk (type_arg py req) n g")
    case (Inl e)
    then show ?thesis using assms g
      by (simp add: handle_generate_alt try_generate_args answer_def)
  next
    case (Inr r)
    obtain data g' where r: "r = (data, g')" by (cases r)
    have len: "length data = nat n" using Inr r by (auto dest: generate_length)
    have item: "(if n > 1 then Inr (PList data) else getitem0 data) = Inr (payload n data)"
      using len assms(2) by (auto simp: payload_def getitem0_one)
    have enc: "encodable (success_envelope (type_arg py req) n (payload n data))
                 = (\<forall>v \<in> set data. encodable v)"
      using encodable_payload [OF len assms(2)] by (simp add: success_envelope_def)
    show ?thesis
    proof (cases "\<forall>v \<in> set data. encodable v")
      case True
      then show ?thesis using assms g Inr r item enc
        by (simp add: handle_generate_alt try_generate_args answer_def
            send_json_response_encodable success_envelope_def [symmetric])
    next
      case False
      then show ?thesis using assms g Inr r item enc
        by (auto simp: handle_generate_alt try_generate_args answer_def
            send_json_response_not_encodable success_envelope_def [symmetric])
    qed
  qed
qed

subsection \<open>The concrete instances\<close>

lemmas query_eval = type_arg_def count_arg_def locale_arg_def get_request_def param_value_def
  parse_qsl_def parse_field_def plus_to_space_def sample_python_def

lemmas int_eval = sample_python_def is_digit_def digits_value_def

lemma sample_unquote: "unquote sample_python s = s"
  by (simp add: sample_python_def)

lemma dec_string_digit: "n < 10 \<Longrightarrow> dec_string n = [digit_char n]"
  by (simp add: dec_string.simps)

lemma sample_attr: "fst s = ''en_US'' \<Longrightarrow> fake_attr sample_faker m s = None"
  by (simp add: sample_faker_def)

lemma failing_attr: "fst s = ''en_US'' \<Longrightarrow> fake_attr (failing_faker e) m s = None"
  by (simp add: failing_faker_def sample_faker_def)

lemma sample_built: "bind_methods sample_faker (''en_US'', k) generator_map = None"
  by (rule bind_methods_None) (simp add: sample_attr)

lemma failing_built: "bind_methods (failing_faker e) (''en_US'', k) generator_map = None"
  by (rule bind_methods_None) (simp add: failing_attr)

lemma sample_unbuilt:
  "bind_methods sample_faker (''en_GB'', k) generator_map
     = Some (AttributeError ''Generator object has no attribute state'')"
  by (simp add: generator_map_def sample_faker_def)

lemma sample_locale: "FakeDataGenerator sample_faker ''en_US'' = Inr (''en_US'', 0)"
  by (simp add: FakeDataGenerator_def sample_faker_def)

lemma sample_locale_gb: "FakeDataGenerator sample_faker ''en_GB'' = Inr (''en_GB'', 0)"
  by (simp add: FakeDataGenerator_def sample_faker_def)

lemma sample_locale_xx:
  "FakeDataGenerator sample_faker ''xx_XX''
     = Inl (AttributeError ''Invalid configuration for faker locale xx_XX'')"
  by (simp add: FakeDataGenerator_def sample_faker_def)

lemma failing_locale: "FakeDataGenerator (failing_faker e) ''en_US'' = Inr (''en_US'', 0)"
  by (simp add: FakeDataGenerator_def failing_faker_def sample_faker_def)

lemma sample_email_1:
  "generate sample_faker ''email'' 1 (''en_US'', 0) = Inr ([PStr ''email-0''], (''en_US'', 1))"
  unfolding generate_built [OF sample_built lookup_email]
  by (simp add: sample_faker_def dec_string_digit digit_char_def)

lemma sample_email_3:
  "generate sample_faker ''email'' 3 (''en_US'', 0)
     = Inr ([PStr ''email-0'', PStr ''email-1'', PStr ''email-2''], (''en_US'', 3))"
  unfolding generate_built [OF sample_built lookup_email]
  apply (simp add: eval_nat_numeral)
  apply (simp add: sample_faker_def dec_string_digit digit_char_def)
  done

lemma sample_profile_1:
  "generate sample_faker ''profile'' 1 (''en_US'', 0) =
     Inr ([PDict
        [(''username'', PStr ''user_name-0''), (''name'', PStr ''name-1''),
         (''email'', PStr ''email-2''),
         (''phone'', PStr ''phone_number-3''),
         (''address'', PStr ''address-4''), (''job'', PStr ''job-5''),
         (''company'', PStr ''company-6''),
         (''birthdate'', PStr ''2020-01-01T00:00:00''),
         (''website'', PStr ''url-8'')]], (''en_US'', 9))"
  unfolding generate_built [OF sample_built lookup_profile]
  by (simp add: generate_profile_def bind_def ret_def lift_def attr_call_def sample_faker_def
      dec_string_digit digit_char_def)

lemma sample_user_1:
  "generate sample_faker ''user'' 1 (''en_US'', 0) =
     Inr ([PDict
        [(''id'', PInt 1), (''username'', PStr ''user_name-1''),
         (''email'', PStr ''email-2''), (''name'', PStr ''name-3''),
         (''created_at'', PStr ''2020-01-01T00:00:00'')]], (''en_US'', 5))"
  unfolding generate_built [OF sample_built lookup_user]
  by (simp add: generate_user_def bind_def ret_def lift_def attr_call_def attr_random_int_def
      sample_faker_def dec_string_digit digit_char_def)

lemma sample_contract: "random_int_in_range sample_faker"
proof -
  have "lo + int s mod (hi - lo + 1) \<le> hi \<and> lo \<le> lo + int s mod (hi - lo + 1)"
    if "lo \<le> hi" for lo hi :: int and s :: nat
  proof -
    have "0 < hi - lo + 1" using that by simp
    then have "int s mod (hi - lo + 1) < hi - lo + 1" "0 \<le> int s mod (hi - lo + 1)"
      by (rule pos_mod_bound, rule pos_mod_sign)
    then show ?thesis by linarith
  qed
  then show ?thesis
    by (auto simp: random_int_in_range_def sample_faker_def split: if_splits)
qed

lemma int_1: "py_int sample_python ''1'' = Inr 1"
  by (simp add: int_eval)

lemma int_3: "py_int sample_python ''3'' = Inr 3"
  by (simp add: int_eval)

lemma int_5: "py_int sample_python ''5'' = Inr 5"
  by (simp add: int_eval)

lemma int_200: "py_int sample_python ''200'' = Inr 200"
  by (simp add: int_eval)

lemma int_abc:
  "py_int sample_python ''abc'' = Inl (''invalid literal for int() with base 10: ''
      @ [CHR 0x27] @ ''abc'' @ [CHR 0x27])"
  by (simp add: int_eval)

lemma not_a_real_type: "''not_a_real_type'' \<notin> set get_available_types"
  by (simp add: get_available_types_def)

section \<open>The claims\<close>

text \<open>
  C3, as amended. The names that \<open>get_available_types\<close> lists (the \<open>types\<close> of
  \<open>/api/types\<close>) are exactly the keys of \<open>generator_map\<close>. When the \<open>Faker\<close> object
  provides every method that the map binds, a listed name is dispatched: \<open>generate\<close>
  returns exactly when each of the \<open>count\<close> calls of its producer returns, with their
  results in call order, and raises exactly the exception of a call that raised; a name
  that is not listed gets the unknown-type error. When the object lacks a bound method,
  \<open>generate\<close> raises that exception for every name.
\<close>

theorem catalog_completeness:
  "set get_available_types = dom (map_of generator_map)
   \<and> handle_types c =
       (Inr (), emit (json_reply 200
          (PDict [(''success'', PBool True), (''count'', PInt 49),
                  (''types'', PList (map PStr get_available_types))])) c)
   \<and> (bind_methods fk s generator_map = None \<and> t \<in> set get_available_types \<longrightarrow>
        (\<exists>p. map_of generator_map t = Some p
           \<and> (\<forall>data s'. generate fk t n s = Inr (data, s') \<longleftrightarrow>
                 length data = nat n \<and> state_after (nat n) (invoke fk p) s = Some s'
                 \<and> (\<forall>i < nat n. \<exists>si sj. state_after i (invoke fk p) s = Some si
                        \<and> invoke fk p si = Inr (data ! i, sj)))
           \<and> (\<forall>e. generate fk t n s = Inl e \<longleftrightarrow>
                 (\<exists>i < nat n. \<exists>si. state_after i (invoke fk p) s = Some si
                        \<and> invoke fk p si = Inl e))))
   \<and> (bind_methods fk s generator_map = None \<and> t \<notin> set get_available_types \<longrightarrow>
        generate fk t n s = Inl (ValueError (''Unknown data type: '' @ t)))
   \<and> (\<forall>e. bind_methods fk s generator_map = Some e \<longrightarrow> generate fk t n s = Inl e)"
proof (intro conjI impI allI)
  show "set get_available_types = dom (map_of generator_map)"
    by (simp add: dom_map_of_conv_image_fst keys_generator_map [symmetric])
next
  have "length get_available_types = 49" by (simp add: get_available_types_def)
  then show "handle_types c =
       (Inr (), emit (json_reply 200
          (PDict [(''success'', PBool True), (''count'', PInt 49),
                  (''types'', PList (map PStr get_available_types))])) c)"
    by (simp add: handle_types_def send_json_response_encodable)
next
  assume a: "bind_methods fk s generator_map = None \<and> t \<in> set get_available_types"
  then obtain p where p: "map_of generator_map t = Some p"
    using lookup_None_iff [of t] by (cases "map_of generator_map t") auto
  have g: "generate fk t n s = call_times (nat n) (invoke fk p) s"
    using a p by (simp add: generate_built)
  show "\<exists>p. map_of generator_map t = Some p
           \<and> (\<forall>data s'. generate fk t n s = Inr (data, s') \<longleftrightarrow>
                 length data = nat n \<and> state_after (nat n) (invoke fk p) s = Some s'
                 \<and> (\<forall>i < nat n. \<exists>si sj. state_after i (invoke fk p) s = Some si
                        \<and> invoke fk p si = Inr (data ! i, sj)))
           \<and> (\<forall>e. generate fk t n s = Inl e \<longleftrightarrow>
                 (\<exists>i < nat n. \<exists>si. state_after i (invoke fk p) s = Some si
                        \<and> invoke fk p si = Inl e))"
    unfolding g using p
    by (simp only: call_times_returns_iff call_times_raises_iff) blast
next
  assume "bind_methods fk s generator_map = None \<and> t \<notin> set get_available_types"
  then show "generate fk t n s = Inl (ValueError (''Unknown data type: '' @ t))"
    by (simp add: generate_unknown)
next
  fix e assume "bind_methods fk s generator_map = Some e"
  then show "generate fk t n s = Inl e" by (rule generate_unbuilt)
qed

theorem catalog_completeness_witness:
  "bind_methods sample_faker (''en_US'', 0) generator_map = None
   \<and> ''email'' \<in> set get_available_types
   \<and> (\<exists>p. map_of generator_map ''email'' = Some p
        \<and> length [PStr ''email-0'', PStr ''email-1'', PStr ''email-2''] = nat 3
        \<and> state_after (nat 3) (invoke sample_faker p) (''en_US'', 0) = Some (''en_US'', 3))
   \<and> ''not_a_real_type'' \<notin> set get_available_types
   \<and> generate sample_faker ''not_a_real_type'' 3 (''en_US'', 0)
       = Inl (ValueError ''Unknown data type: not_a_real_type'')
   \<and> bind_methods sample_faker (''en_GB'', 0) generator_map
       = Some (AttributeError ''Generator object has no attribute state'')
   \<and> generate sample_faker ''email'' 3 (''en_GB'', 0)
       = Inl (AttributeError ''Generator object has no attribute state'')"
proof -
  have a: "''email'' \<in> set get_available_types"
    by (simp add: get_available_types_def)
  note us = catalog_completeness [of conn0 sample_faker "(''en_US'', 0)" "''email''" 3]
  note un = catalog_completeness [of conn0 sample_faker "(''en_US'', 0)" "''not_a_real_type''" 3]
  note gb = catalog_completeness [of conn0 sample_faker "(''en_GB'', 0)" "''email''" 3]
  have d: "\<exists>p. map_of generator_map ''email'' = Some p
        \<and> length [PStr ''email-0'', PStr ''email-1'', PStr ''email-2''] = nat 3
        \<and> state_after (nat 3) (invoke sample_faker p) (''en_US'', 0) = Some (''en_US'', 3)"
    using us sample_built [of 0] a sample_email_3 by blast
  have u: "generate sample_faker ''not_a_real_type'' 3 (''en_US'', 0)
       = Inl (ValueError ''Unknown data type: not_a_real_type'')"
    using un sample_built [of 0] not_a_real_type by simp
  have g: "generate sample_faker ''email'' 3 (''en_GB'', 0)
       = Inl (AttributeError ''Generator object has no attribute state'')"
    using gb sample_unbuilt [of 0] by blast
  from a d u g sample_built [of 0] sample_unbuilt [of 0] not_a_real_type show ?thesis
    by blast
qed

text \<open>
  C3 as stated fails: \<open>name\<close> is listed, but on an object without the method \<open>state\<close>
  the dictionary is not built, and the request is not dispatched to the producer.
\<close>

theorem catalog_completeness_counterexample:
  "''name'' \<in> set get_available_types
   \<and> FakeDataGenerator sample_faker ''en_GB'' = Inr (''en_GB'', 0)
   \<and> generate sample_faker ''name'' 1 (''en_GB'', 0)
       = Inl (AttributeError ''Generator object has no attribute state'')"
  by (simp add: sample_locale_gb generate_unbuilt [OF sample_unbuilt] get_available_types_def)

text \<open>
  C4, as amended. The catalog is a constant of 49 distinct keys (not 48), the same in the
  map and in the listing; exactly two of its producers, \<open>profile\<close> and \<open>user\<close>, are
  composite.
\<close>

theorem catalog_size:
  "length generator_map = 49
   \<and> distinct (map fst generator_map)
   \<and> card (dom (map_of generator_map)) = 49
   \<and> get_available_types = map fst generator_map
   \<and> map fst (filter (\<lambda>(k, p). is_composite p) generator_map) = [''profile'', ''user'']"
proof -
  have "map fst (filter (\<lambda>(k, p). is_composite p) generator_map) = [''profile'', ''user'']"
    by (simp add: generator_map_def)
  moreover have "length generator_map = 49"
    by (simp add: generator_map_def)
  ultimately show ?thesis
    by (simp add: keys_generator_map distinct_types card_keys)
qed

text \<open>C4 as stated fails: the number of keys is not 48.\<close>

theorem catalog_size_counterexample:
  "card (dom (map_of generator_map)) \<noteq> 48 \<and> length get_available_types \<noteq> 48"
  by (simp add: card_keys get_available_types_def)

text \<open>
  C6. Every value that \<open>generate\<close> returns for \<open>profile\<close> is a record with exactly the
  nine keys of \<open>generate_profile\<close>, every value for \<open>user\<close> a record with exactly the five
  keys of \<open>generate_user\<close>; its \<open>id\<close> is an integer from 1 to 100000 when \<open>random_int\<close>
  keeps to its bounds.
\<close>

theorem composite_shape:
  "(generate fk ''profile'' n s = Inr (data, s') \<longrightarrow>
      (\<forall>v \<in> set data. keys_of v =
         Some [''username'', ''name'', ''email'', ''phone'', ''address'', ''job'',
               ''company'', ''birthdate'', ''website'']))
   \<and> (generate fk ''user'' n s = Inr (data, s') \<longrightarrow>
      (\<forall>v \<in> set data. keys_of v =
         Some [''id'', ''username'', ''email'', ''name'', ''created_at'']))
   \<and> (random_int_in_range fk \<and> generate fk ''user'' n s = Inr (data, s') \<longrightarrow>
      (\<forall>v \<in> set data. \<exists>i. field ''id'' v = Some (PInt i) \<and> 1 \<le> i \<and> i \<le> 100000))"
proof (intro conjI impI)
  assume "generate fk ''profile'' n s = Inr (data, s')"
  then have "call_times (nat n) (generate_profile fk) s = Inr (data, s')"
    by (auto dest!: generate_returns simp: lookup_profile)
  then show "\<forall>v \<in> set data. keys_of v =
         Some [''username'', ''name'', ''email'', ''phone'', ''address'', ''job'',
               ''company'', ''birthdate'', ''website'']"
    by (rule call_times_all [rotated]) (rule generate_profile_keys)
next
  assume "generate fk ''user'' n s = Inr (data, s')"
  then have "call_times (nat n) (generate_user fk) s = Inr (data, s')"
    by (auto dest!: generate_returns simp: lookup_user)
  then show "\<forall>v \<in> set data. keys_of v =
         Some [''id'', ''username'', ''email'', ''name'', ''created_at'']"
    by (rule call_times_all [rotated]) (rule generate_user_keys)
next
  assume a: "random_int_in_range fk \<and> generate fk ''user'' n s = Inr (data, s')"
  then have "call_times (nat n) (generate_user fk) s = Inr (data, s')"
    by (auto dest!: generate_returns simp: lookup_user)
  then show "\<forall>v \<in> set data. \<exists>i. field ''id'' v = Some (PInt i) \<and> 1 \<le> i \<and> i \<le> 100000"
    by (rule call_times_all [rotated]) (rule generate_user_id [OF conjunct1 [OF a]])
qed

theorem composite_shape_witness:
  "random_int_in_range sample_faker
   \<and> (\<exists>data s'. generate sample_faker ''profile'' 1 (''en_US'', 0) = Inr (data, s') \<and> data \<noteq> []
        \<and> (\<forall>v \<in> set data. keys_of v =
             Some [''username'', ''name'', ''email'', ''phone'', ''address'', ''job'',
                   ''company'', ''birthdate'', ''website'']))
   \<and> (\<exists>data s'. generate sample_faker ''user'' 1 (''en_US'', 0) = Inr (data, s') \<and> data \<noteq> []
        \<and> (\<forall>v \<in> set data. keys_of v =
             Some [''id'', ''username'', ''email'', ''name'', ''created_at''])
        \<and> (\<forall>v \<in> set data. \<exists>i. field ''id'' v = Some (PInt i) \<and> 1 \<le> i \<and> i \<le> 100000))"
proof -
  have p: "\<exists>data s'. generate sample_faker ''profile'' 1 (''en_US'', 0) = Inr (data, s')
             \<and> data \<noteq> []
             \<and> (\<forall>v \<in> set data. keys_of v =
                  Some [''username'', ''name'', ''email'', ''phone'', ''address'', ''job'',
                        ''company'', ''birthdate'', ''website''])"
    using composite_shape [where fk = sample_faker and n = 1 and s = "(''en_US'', 0)"
        and s' = "(''en_US'', 9)"]
      sample_profile_1 by fastforce
  have u: "\<exists>data s'. generate sample_faker ''user'' 1 (''en_US'', 0) = Inr (data, s')
        \<and> data \<noteq> []
        \<and> (\<forall>v \<in> set data. keys_of v =
             Some [''id'', ''username'', ''email'', ''name'', ''created_at''])
        \<and> (\<forall>v \<in> set data. \<exists>i. field ''id'' v = Some (PInt i) \<and> 1 \<le> i \<and> i \<le> 100000)"
    using composite_shape [where fk = sample_faker and n = 1 and s = "(''en_US'', 0)"
        and s' = "(''en_US'', 5)"]
      sample_user_1 sample_contract by fastforce
  from p u sample_contract show ?thesis by blast
qed

text \<open>
  C9. When the count is at least 1 and \<open>generate\<close> returns, it returns exactly \<open>count\<close>
  items, so the list is not empty and \<open>data[0]\<close> does not raise.
\<close>

theorem first_item_in_bounds:
  "1 \<le> count \<Longrightarrow> generate fk t count s = Inr (data, s') \<Longrightarrow>
     length data = nat count \<and> data \<noteq> [] \<and> getitem0 data = Inr (data ! 0)"
  by (cases data) (auto dest: generate_length simp: getitem0_def)

theorem first_item_in_bounds_witness:
  "(1::int) \<le> 1
   \<and> generate sample_faker ''email'' 1 (''en_US'', 0) = Inr ([PStr ''email-0''], (''en_US'', 1))
   \<and> length [PStr ''email-0''] = nat 1
   \<and> getitem0 [PStr ''email-0''] = Inr ([PStr ''email-0''] ! 0)"
proof -
  have one: "(1::int) \<le> 1" by simp
  from first_item_in_bounds [OF one sample_email_1] sample_email_1 show ?thesis
    by simp
qed

text \<open>
  C10, as amended. \<open>handle_generate\<close> depends on the query through three values only:
  \<open>type\<close>, \<open>count\<close> and \<open>locale\<close> are each read as the value of the first field of the
  query that has that name and a non-empty value, and as \<open>name\<close>, \<open>1\<close> and \<open>en_US\<close> when
  there is no such field. Fields are taken from left to right, and a field without \<open>=\<close>
  or with an empty value is passed over, also when a later field of the same name has a
  value.
\<close>

theorem parameter_reading:
  "try_generate py fk req c =
     (case py_int py (param_value py (query req) ''count'' ''1'') of
        Inl m \<Rightarrow> (Inl (ValueError m), c)
      | Inr n \<Rightarrow>
          answer fk (param_value py (query req) ''type'' ''name'') n
            (param_value py (query req) ''locale'' ''en_US'') c)
   \<and> handle_generate py fk req c =
       (case py_int py (param_value py (query req) ''count'' ''1'') of
          Inl m \<Rightarrow> (Inr (), emit (json_reply 400 (error_envelope m)) c)
        | Inr n \<Rightarrow>
            (case answer fk (param_value py (query req) ''type'' ''name'') n
                    (param_value py (query req) ''locale'' ''en_US'') c of
               (Inr u, c1) \<Rightarrow> (Inr u, c1)
             | (Inl e, c1) \<Rightarrow> (Inr (), failure_reply e c1)))
   \<and> (CHR ''&'' \<notin> set f \<longrightarrow>
        param_value py (f @ CHR ''&'' # qs) key dflt =
          (case parse_field py f of
             [] \<Rightarrow> param_value py qs key dflt
           | (n, v) # _ \<Rightarrow> if n = key then v else param_value py qs key dflt))
   \<and> (CHR ''&'' \<notin> set f \<longrightarrow>
        param_value py f key dflt =
          (case parse_field py f of [] \<Rightarrow> dflt | (n, v) # _ \<Rightarrow> if n = key then v else dflt))
   \<and> param_value py [] key dflt = dflt
   \<and> (CHR ''='' \<notin> set f \<longrightarrow> parse_field py f = [])
   \<and> (CHR ''='' \<notin> set nm \<longrightarrow>
        parse_field py (nm @ CHR ''='' # val) =
          (if val = [] then []
           else [(unquote py (plus_to_space nm), unquote py (plus_to_space val))]))"
proof (intro conjI impI)
  show t: "try_generate py fk req c =
     (case py_int py (param_value py (query req) ''count'' ''1'') of
        Inl m \<Rightarrow> (Inl (ValueError m), c)
      | Inr n \<Rightarrow>
          answer fk (param_value py (query req) ''type'' ''name'') n
            (param_value py (query req) ''locale'' ''en_US'') c)"
    using try_generate_args [of py fk req c]
    unfolding count_arg_def type_arg_def locale_arg_def .
  show "handle_generate py fk req c =
       (case py_int py (param_value py (query req) ''count'' ''1'') of
          Inl m \<Rightarrow> (Inr (), emit (json_reply 400 (error_envelope m)) c)
        | Inr n \<Rightarrow>
            (case answer fk (param_value py (query req) ''type'' ''name'') n
                    (param_value py (query req) ''locale'' ''en_US'') c of
               (Inr u, c1) \<Rightarrow> (Inr u, c1)
             | (Inl e, c1) \<Rightarrow> (Inr (), failure_reply e c1)))"
    by (simp add: handle_generate_alt t failure_reply_ValueError split: sum.splits)
next
  assume "CHR ''&'' \<notin> set f"
  then show "param_value py (f @ CHR ''&'' # qs) key dflt =
          (case parse_field py f of
             [] \<Rightarrow> param_value py qs key dflt
           | (n, v) # _ \<Rightarrow> if n = key then v else param_value py qs key dflt)"
    by (rule param_value_cons)
next
  assume "CHR ''&'' \<notin> set f"
  then show "param_value py f key dflt =
          (case parse_field py f of [] \<Rightarrow> dflt | (n, v) # _ \<Rightarrow> if n = key then v else dflt)"
    by (rule param_value_single)
next
  show "param_value py [] key dflt = dflt"
    by (simp add: param_value_def parse_qsl_def)
next
  assume "CHR ''='' \<notin> set f"
  then show "parse_field py f = []" by (rule parse_field_no_equals)
next
  assume "CHR ''='' \<notin> set nm"
  then show "parse_field py (nm @ CHR ''='' # val) =
          (if val = [] then []
           else [(unquote py (plus_to_space nm), unquote py (plus_to_space val))])"
    by (rule parse_field_pair)
qed

theorem parameter_reading_witness:
  "try_generate sample_python sample_faker
      (get_request ''/api/generate'' ''count=3&count=7'') conn0
     = answer sample_faker ''name'' 3 ''en_US'' conn0
   \<and> CHR ''&'' \<notin> set ''count=3''
   \<and> param_value sample_python (''count=3'' @ CHR ''&'' # ''count=7'') ''count'' ''1'' = ''3''
   \<and> CHR ''&'' \<notin> set ''locale''
   \<and> CHR ''='' \<notin> set ''locale''
   \<and> param_value sample_python ''locale'' ''locale'' ''en_US'' = ''en_US''
   \<and> CHR ''='' \<notin> set ''count''
   \<and> parse_field sample_python (''count'' @ CHR ''='' # ''3'') = [(''count'', ''3'')]"
proof -
  have a: "CHR ''&'' \<notin> set ''count=3''" by simp
  have b: "CHR ''&'' \<notin> set ''locale''" "CHR ''='' \<notin> set ''locale''" by simp_all
  have c: "CHR ''='' \<notin> set ''count''" by simp
  have pf: "parse_field sample_python (''count'' @ CHR ''='' # ''3'') = [(''count'', ''3'')]"
    using parameter_reading [of sample_python sample_faker "get_request [] []" conn0
        "[]" "[]" "[]" "[]" "''count''" "''3''"] c
    by (simp add: plus_to_space_def sample_unquote)
  have pv: "param_value sample_python (''count=3'' @ CHR ''&'' # ''count=7'') ''count'' ''1''
      = ''3''"
    using parameter_reading [of sample_python sample_faker "get_request [] []" conn0
        "''count=3''" "''count=7''" "''count''" "''1''" "[]" "[]"] a pf
    by simp
  have lo: "param_value sample_python ''locale'' ''locale'' ''en_US'' = ''en_US''"
    using parameter_reading [of sample_python sample_faker "get_request [] []" conn0
        "''locale''" "[]" "''locale''" "''en_US''" "[]" "[]"] b
    by simp
  have ty: "param_value sample_python ''count=3&count=7'' ''type'' ''name'' = ''name''"
       "param_value sample_python ''count=3&count=7'' ''locale'' ''en_US'' = ''en_US''"
    by (simp_all add: query_eval)
  have tg: "try_generate sample_python sample_faker
      (get_request ''/api/generate'' ''count=3&count=7'') conn0
     = answer sample_faker ''name'' 3 ''en_US'' conn0"
    using parameter_reading [of sample_python sample_faker
        "get_request ''/api/generate'' ''count=3&count=7''" conn0 "[]" "[]" "[]" "[]" "[]" "[]"]
      pv ty
    by (simp add: get_request_def int_3)
  from a b c pf pv lo tg show ?thesis by simp
qed

text \<open>
  C10 as stated fails: \<open>type\<close> is given twice and its first occurrence is empty, and the
  handler reads neither that occurrence nor the default \<open>name\<close> but the second one: the
  success response says \<open>email\<close>.
\<close>

theorem parameter_reading_counterexample:
  "handle_generate sample_python sample_faker
      (get_request ''/api/generate'' ''type=&type=email'') conn0
     = (Inr (), emit (json_reply 200 (success_envelope ''email'' 1 (PStr ''email-0''))) conn0)"
proof -
  have args: "count_arg sample_python (get_request ''/api/generate'' ''type=&type=email'') = ''1''"
    "type_arg sample_python (get_request ''/api/generate'' ''type=&type=email'') = ''email''"
    "locale_arg sample_python (get_request ''/api/generate'' ''type=&type=email'') = ''en_US''"
    by (simp_all add: query_eval)
  show ?thesis
    by (simp add: handle_generate_in_range args int_1 sample_locale sample_email_1 payload_def)
qed

text \<open>
  C1, as amended. A count that \<open>int\<close> does not parse is answered with status 400 and the
  message of the \<open>ValueError\<close>; a count that \<open>int\<close> reads as a number outside 1..100 is
  answered with status 400 and the fixed message, whatever the type, the locale and the
  backend; only a count within 1..100 is ever answered with the success response, and
  it is so answered when the generator is built for the locale, \<open>generate\<close> returns and
  the items can be encoded.
\<close>

theorem count_bounds:
  "(\<forall>m. py_int py (count_arg py req) = Inl m \<longrightarrow>
       handle_generate py fk req c = (Inr (), emit (json_reply 400 (error_envelope m)) c))
   \<and> (\<forall>n. py_int py (count_arg py req) = Inr n \<and> (n < 1 \<or> 100 < n) \<longrightarrow>
       handle_generate py fk req c =
         (Inr (), emit (json_reply 400 (error_envelope ''Count must be between 1 and 100'')) c))
   \<and> (\<forall>n g data g'.
         py_int py (count_arg py req) = Inr n \<and> 1 \<le> n \<and> n \<le> 100
         \<and> FakeDataGenerator fk (locale_arg py req) = Inr g
         \<and> generate fk (type_arg py req) n g = Inr (data, g')
         \<and> (\<forall>v \<in> set data. encodable v) \<longrightarrow>
       handle_generate py fk req c =
         (Inr (), emit (json_reply 200
            (success_envelope (type_arg py req) n (payload n data))) c))
   \<and> (\<forall>n body.
         py_int py (count_arg py req) = Inr n
         \<and> handle_generate py fk req c = (Inr (), emit (json_reply 200 body) c) \<longrightarrow>
       1 \<le> n \<and> n \<le> 100)"
proof (intro conjI allI impI)
  fix m assume "py_int py (count_arg py req) = Inl m"
  then show "handle_generate py fk req c
      = (Inr (), emit (json_reply 400 (error_envelope m)) c)"
    by (rule handle_generate_unparsed)
next
  fix n assume "py_int py (count_arg py req) = Inr n \<and> (n < 1 \<or> 100 < n)"
  then show "handle_generate py fk req c =
         (Inr (), emit (json_reply 400 (error_envelope ''Count must be between 1 and 100'')) c)"
    by (simp add: handle_generate_out_of_range)
next
  fix n g data g'
  assume "py_int py (count_arg py req) = Inr n \<and> 1 \<le> n \<and> n \<le> 100
         \<and> FakeDataGenerator fk (locale_arg py req) = Inr g
         \<and> generate fk (type_arg py req) n g = Inr (data, g')
         \<and> (\<forall>v \<in> set data. encodable v)"
  then show "handle_generate py fk req c =
         (Inr (), emit (json_reply 200
            (success_envelope (type_arg py req) n (payload n data))) c)"
    by (simp add: handle_generate_in_range)
next
  fix n body
  assume a: "py_int py (count_arg py req) = Inr n
         \<and> handle_generate py fk req c = (Inr (), emit (json_reply 200 body) c)"
  have r: "\<not> (n < 1 \<or> 100 < n)"
  proof
    assume "n < 1 \<or> 100 < n"
    with a have "emit (json_reply 200 body) c
        = emit (json_reply 400 (error_envelope ''Count must be between 1 and 100'')) c"
      using handle_generate_out_of_range [of py req n fk c] by simp
    then show False by (simp add: emit_inject json_reply_def json_headers_def)
  qed
  from r show "1 \<le> n" by simp
  from r show "n \<le> 100" by simp
qed

lemma args_email3:
  "count_arg sample_python (get_request ''/api/generate'' ''type=email&count=3'') = ''3''"
  "type_arg sample_python (get_request ''/api/generate'' ''type=email&count=3'') = ''email''"
  "locale_arg sample_python (get_request ''/api/generate'' ''type=email&count=3'') = ''en_US''"
  by (simp_all add: query_eval)

lemma args_name200:
  "count_arg sample_python (get_request ''/api/generate'' ''type=name&count=200'') = ''200''"
  by (simp add: query_eval)

lemma args_abc:
  "count_arg sample_python (get_request ''/api/generate'' ''count=abc'') = ''abc''"
  by (simp add: query_eval)

theorem count_bounds_witness:
  "handle_generate sample_python sample_faker (get_request ''/api/generate'' ''count=abc'') conn0 =
     (Inr (), emit (json_reply 400 (error_envelope
        (''invalid literal for int() with base 10: '' @ [CHR 0x27] @ ''abc'' @ [CHR 0x27]))) conn0)
   \<and> handle_generate sample_python sample_faker
        (get_request ''/api/generate'' ''type=name&count=200'') conn0 =
     (Inr (), emit (json_reply 400 (error_envelope ''Count must be between 1 and 100'')) conn0)
   \<and> handle_generate sample_python sample_faker
        (get_request ''/api/generate'' ''type=email&count=3'') conn0 =
     (Inr (), emit (json_reply 200 (success_envelope ''email'' 3
        (PList [PStr ''email-0'', PStr ''email-1'', PStr ''email-2'']))) conn0)
   \<and> (1::int) \<le> 3 \<and> (3::int) \<le> 100"
proof -
  have a: "handle_generate sample_python sample_faker
        (get_request ''/api/generate'' ''count=abc'') conn0 =
     (Inr (), emit (json_reply 400 (error_envelope
        (''invalid literal for int() with base 10: '' @ [CHR 0x27] @ ''abc'' @ [CHR 0x27]))) conn0)"
    using count_bounds [of sample_python "get_request ''/api/generate'' ''count=abc''"
        sample_faker conn0]
    by (simp add: args_abc int_abc)
  have b: "handle_generate sample_python sample_faker
        (get_request ''/api/generate'' ''type=name&count=200'') conn0 =
     (Inr (), emit (json_reply 400 (error_envelope ''Count must be between 1 and 100'')) conn0)"
    using count_bounds [of sample_python "get_request ''/api/generate'' ''type=name&count=200''"
        sample_faker conn0]
    by (simp add: args_name200 int_200)
  have enc: "\<forall>v \<in> set [PStr ''email-0'', PStr ''email-1'', PStr ''email-2'']. encodable v"
    by simp
  have c: "handle_generate sample_python sample_faker
        (get_request ''/api/generate'' ''type=email&count=3'') conn0 =
     (Inr (), emit (json_reply 200 (success_envelope ''email'' 3
        (PList [PStr ''email-0'', PStr ''email-1'', PStr ''email-2'']))) conn0)"
    using count_bounds [of sample_python "get_request ''/api/generate'' ''type=email&count=3''"
        sample_faker conn0,
        THEN conjunct2, THEN conjunct2, THEN conjunct1, rule_format,
        of 3 "(''en_US'', 0)" "[PStr ''email-0'', PStr ''email-1'', PStr ''email-2'']"
          "(''en_US'', 3)"] enc
    by (simp add: args_email3 int_3 sample_locale sample_email_3 payload_def)
  have d: "(1::int) \<le> 3 \<and> (3::int) \<le> 100"
    using count_bounds [of sample_python "get_request ''/api/generate'' ''type=email&count=3''"
        sample_faker conn0,
        THEN conjunct2, THEN conjunct2, THEN conjunct2, rule_format, of 3] c
    by (simp add: args_email3 int_3)
  from a b c d show ?thesis by simp
qed

lemma args_xx:
  "count_arg sample_python (get_request ''/api/generate'' ''type=name&count=5&locale=xx_XX'') = ''5''"
  "type_arg sample_python (get_request ''/api/generate'' ''type=name&count=5&locale=xx_XX'')
     = ''name''"
  "locale_arg sample_python (get_request ''/api/generate'' ''type=name&count=5&locale=xx_XX'')
     = ''xx_XX''"
  by (simp_all add: query_eval)

text \<open>
  C1 as stated fails: the type is in the catalog and the count is 5, but the backend does
  not know the locale, and the answer is status 500.
\<close>

theorem count_bounds_counterexample:
  "type_arg sample_python (get_request ''/api/generate'' ''type=name&count=5&locale=xx_XX'')
      \<in> set get_available_types
   \<and> py_int sample_python
        (count_arg sample_python (get_request ''/api/generate'' ''type=name&count=5&locale=xx_XX''))
      = Inr 5
   \<and> handle_generate sample_python sample_faker
        (get_request ''/api/generate'' ''type=name&count=5&locale=xx_XX'') conn0 =
      (Inr (), emit (json_reply 500 (error_envelope ''Internal server error''))
         (logging_error
            ''Error generating fake data: Invalid configuration for faker locale xx_XX''
            conn0))"
  by (simp add: args_xx int_5 handle_generate_in_range sample_locale_xx failure_reply_def
      get_available_types_def)






lemma producer_raises:
  assumes "py_int py (count_arg py req) = Inr n" and "1 \<le> n" and "n \<le> 100"
    and "FakeDataGenerator fk (locale_arg py req) = Inr g"
    and "bind_methods fk g generator_map = None"
    and "map_of generator_map (type_arg py req) = Some p"
    and "i < nat n" and "state_after i (invoke fk p) g = Some si"
    and "invoke fk p si = Inl e"
  shows "generate fk (type_arg py req) n g = Inl e"
    and "handle_generate py fk req c = (Inr (), failure_reply e c)"
proof -
  have "call_times (nat n) (invoke fk p) g = Inl e"
    using assms(7-9) by (auto simp: call_times_raises_iff)
  then show g: "generate fk (type_arg py req) n g = Inl e"
    using assms(5,6) by (simp add: generate_built)
  show "handle_generate py fk req c = (Inr (), failure_reply e c)"
    using assms(1-4) g by (simp add: handle_generate_in_range)
qed

lemma args_name5:
  "count_arg sample_python (get_request ''/api/generate'' ''type=name&count=5'') = ''5''"
  "type_arg sample_python (get_request ''/api/generate'' ''type=name&count=5'') = ''name''"
  "locale_arg sample_python (get_request ''/api/generate'' ''type=name&count=5'') = ''en_US''"
  by (simp_all add: query_eval)

lemma failing_two_calls:
  "state_after 2 (invoke (failing_faker e) (Bound ''name'')) (''en_US'', 0) = Some (''en_US'', 2)"
  by (simp add: eval_nat_numeral failing_faker_def sample_faker_def)

lemma failing_third_call:
  "invoke (failing_faker e) (Bound ''name'') (''en_US'', 2) = Inl e"
  by (simp add: failing_faker_def sample_faker_def)

text \<open>
  C7. The claim is what the generic \<open>except\<close> clause does, and the code departs from it
  for one class of exception. A call of the producer that raises ends the comprehension
  with that exception, whatever the calls before it returned, so no item is ever sent;
  but the \<open>except ValueError\<close> clause, written for the count and the unknown type,
  stands before the generic clause and takes a \<open>ValueError\<close> of a producer as well.
  Here the third call for \<open>type=name&count=5\<close> raises: an exception that is not a
  \<open>ValueError\<close> is answered with status 500 and the generic message, a \<open>ValueError\<close>
  with status 400 and its own message.
\<close>

theorem producer_failure_evaluated:
  "state_after 2 (invoke (failing_faker (ValueError ''boom'')) (Bound ''name'')) (''en_US'', 0)
     = Some (''en_US'', 2)
   \<and> invoke (failing_faker (ValueError ''boom'')) (Bound ''name'') (''en_US'', 2)
     = Inl (ValueError ''boom'')
   \<and> handle_generate sample_python (failing_faker (ValueError ''boom''))
        (get_request ''/api/generate'' ''type=name&count=5'') conn0 =
       (Inr (), emit (json_reply 400 (error_envelope ''boom'')) conn0)
   \<and> handle_generate sample_python (failing_faker (OtherError ''boom''))
        (get_request ''/api/generate'' ''type=name&count=5'') conn0 =
       (Inr (), emit (json_reply 500 (error_envelope ''Internal server error''))
          (logging_error ''Error generating fake data: boom'' conn0))"
proof -
  have a: "py_int sample_python
      (count_arg sample_python (get_request ''/api/generate'' ''type=name&count=5'')) = Inr 5"
    by (simp add: args_name5 int_5)
  have b: "FakeDataGenerator (failing_faker e)
      (locale_arg sample_python (get_request ''/api/generate'' ''type=name&count=5''))
        = Inr (''en_US'', 0)" for e
    by (simp add: args_name5 failing_locale)
  have c: "map_of generator_map
      (type_arg sample_python (get_request ''/api/generate'' ''type=name&count=5''))
        = Some (Bound ''name'')"
    by (simp add: args_name5 lookup_name)
  have r: "handle_generate sample_python (failing_faker e)
        (get_request ''/api/generate'' ''type=name&count=5'') conn0
      = (Inr (), failure_reply e conn0)" for e
    by (rule producer_raises(2) [OF a _ _ b failing_built c _ failing_two_calls
          failing_third_call]) simp_all
  show ?thesis
    using r [of "ValueError ''boom''"] r [of "OtherError ''boom''"]
      failing_two_calls [of "ValueError ''boom''"] failing_third_call [of "ValueError ''boom''"]
    by (simp add: failure_reply_def)
qed

text \<open>
  C2. When the count is valid and the answer is the success response, the type is in the
  catalog, its producer was called \<open>count\<close> times on the generator built for the locale,
  each call in the state the one before left, and the \<open>data\<close> field is the one item
  itself when the count is 1 and the list of the \<open>count\<close> items in call order otherwise.
\<close>

theorem data_cardinality:
  assumes "py_int py (count_arg py req) = Inr n" and "1 \<le> n" and "n \<le> 100"
    and "handle_generate py fk req c = (Inr (), emit (json_reply 200 body) c)"
  shows "\<exists>g p data g'.
           FakeDataGenerator fk (locale_arg py req) = Inr g
         \<and> bind_methods fk g generator_map = None
         \<and> map_of generator_map (type_arg py req) = Some p
         \<and> call_times (nat n) (invoke fk p) g = Inr (data, g')
         \<and> length data = nat n
         \<and> (\<forall>i < nat n. \<exists>si sj. state_after i (invoke fk p) g = Some si
                \<and> invoke fk p si = Inr (data ! i, sj))
         \<and> body = success_envelope (type_arg py req) n
                    (if n = 1 then data ! 0 else PList data)"
proof -
  note h = assms(4) [unfolded handle_generate_in_range [OF assms(1-3)]]
  from h obtain g where g: "FakeDataGenerator fk (locale_arg py req) = Inr g"
    by (cases "FakeDataGenerator fk (locale_arg py req)") (auto simp: failure_reply_not_200)
  from h g obtain data g' where d: "generate fk (type_arg py req) n g = Inr (data, g')"
    by (cases "generate fk (type_arg py req) n g") (auto simp: failure_reply_not_200)
  from generate_returns [OF d] obtain p where
    bm: "bind_methods fk g generator_map = None"
    and p: "map_of generator_map (type_arg py req) = Some p"
    and ct: "call_times (nat n) (invoke fk p) g = Inr (data, g')"
    by blast
  from h g d have enc: "\<forall>v \<in> set data. encodable v"
    by (auto simp: double_reply_not_200 split: if_splits)
  from h g d enc
  have "emit (json_reply 200 (success_envelope (type_arg py req) n (payload n data))) c
      = emit (json_reply 200 body) c"
    by simp
  then have b: "body = success_envelope (type_arg py req) n (payload n data)"
    by (simp add: emit_inject json_reply_def)
  have ord: "\<forall>i < nat n. \<exists>si sj. state_after i (invoke fk p) g = Some si
                \<and> invoke fk p si = Inr (data ! i, sj)"
    using call_times_order [OF ct] by blast
  from g bm p ct call_times_length [OF ct] ord b show ?thesis
    unfolding payload_def by blast
qed

lemma args_email:
  "count_arg sample_python (get_request ''/api/generate'' ''type=email'') = ''1''"
  "type_arg sample_python (get_request ''/api/generate'' ''type=email'') = ''email''"
  "locale_arg sample_python (get_request ''/api/generate'' ''type=email'') = ''en_US''"
  by (simp_all add: query_eval)

lemma reply_email3:
  "handle_generate sample_python sample_faker
      (get_request ''/api/generate'' ''type=email&count=3'') conn0 =
     (Inr (), emit (json_reply 200 (success_envelope ''email'' 3
        (PList [PStr ''email-0'', PStr ''email-1'', PStr ''email-2'']))) conn0)"
  by (simp add: handle_generate_in_range args_email3 int_3 sample_locale sample_email_3
      payload_def)

lemma reply_email1:
  "handle_generate sample_python sample_faker (get_request ''/api/generate'' ''type=email'') conn0 =
     (Inr (), emit (json_reply 200 (success_envelope ''email'' 1 (PStr ''email-0''))) conn0)"
  by (simp add: handle_generate_in_range args_email int_1 sample_locale sample_email_1
      payload_def)

theorem data_cardinality_witness:
  "py_int sample_python
      (count_arg sample_python (get_request ''/api/generate'' ''type=email&count=3'')) = Inr 3
   \<and> handle_generate sample_python sample_faker
        (get_request ''/api/generate'' ''type=email&count=3'') conn0 =
     (Inr (), emit (json_reply 200 (success_envelope ''email'' 3
        (PList [PStr ''email-0'', PStr ''email-1'', PStr ''email-2'']))) conn0)
   \<and> (\<exists>data g'. call_times (nat 3) (invoke sample_faker (Bound ''email'')) (''en_US'', 0)
            = Inr (data, g')
         \<and> length data = nat 3
         \<and> PList [PStr ''email-0'', PStr ''email-1'', PStr ''email-2''] = PList data)
   \<and> py_int sample_python
        (count_arg sample_python (get_request ''/api/generate'' ''type=email'')) = Inr 1
   \<and> handle_generate sample_python sample_faker
        (get_request ''/api/generate'' ''type=email'') conn0 =
     (Inr (), emit (json_reply 200 (success_envelope ''email'' 1 (PStr ''email-0''))) conn0)
   \<and> (\<exists>data g'. call_times (nat 1) (invoke sample_faker (Bound ''email'')) (''en_US'', 0)
            = Inr (data, g')
         \<and> length data = nat 1
         \<and> PStr ''email-0'' = data ! 0)"
proof -
  have a3: "py_int sample_python
      (count_arg sample_python (get_request ''/api/generate'' ''type=email&count=3'')) = Inr 3"
    by (simp add: args_email3 int_3)
  have a1: "py_int sample_python
      (count_arg sample_python (get_request ''/api/generate'' ''type=email'')) = Inr 1"
    by (simp add: args_email int_1)
  have w3: "\<exists>data g'. call_times (nat 3) (invoke sample_faker (Bound ''email'')) (''en_US'', 0)
            = Inr (data, g')
         \<and> length data = nat 3
         \<and> PList [PStr ''email-0'', PStr ''email-1'', PStr ''email-2''] = PList data"
    using data_cardinality [OF a3 _ _ reply_email3] lookup_email
    by (auto simp: args_email3 success_envelope_def sample_locale)
  have w1: "\<exists>data g'. call_times (nat 1) (invoke sample_faker (Bound ''email'')) (''en_US'', 0)
            = Inr (data, g')
         \<and> length data = nat 1
         \<and> PStr ''email-0'' = data ! 0"
    using data_cardinality [OF a1 _ _ reply_email1] lookup_email
    by (auto simp: args_email success_envelope_def sample_locale)
  from a3 a1 reply_email3 reply_email1 w3 w1 show ?thesis by blast
qed




text \<open>
  What the amendment leaves out: when an item cannot be encoded, the status line 200 and
  the headers are already written when \<open>json.dumps\<close> raises, and the error response is
  written after them.
\<close>

lemma unencodable_reply:
  assumes "py_int py (count_arg py req) = Inr n" and "1 \<le> n" and "n \<le> 100"
    and "FakeDataGenerator fk (locale_arg py req) = Inr g"
    and "generate fk (type_arg py req) n g = Inr (data, g')"
    and "\<exists>v \<in> set data. \<not> encodable v"
  shows "handle_generate py fk req c =
     (Inr (), emit (json_headers 200
                @ json_reply 500 (error_envelope ''Internal server error''))
        (logging_error ''Error generating fake data: Object is not JSON serializable'' c))"
  using assms
  by (auto simp: handle_generate_in_range failure_reply_def emit_def logging_error_def)




end
